theory Spec2Isabelle
  imports Main
begin

section \<open>Rows of the remote store\<close>

text \<open>
  The row types are imported by the sources from a declaration file; their fields are
  the ones the sources read and write (\<open>id\<close>, \<open>title\<close>, \<open>content\<close>, \<open>exam_id\<close>,
  \<open>teacher_id\<close>, ...). Identifiers and timestamps are strings.
\<close>

record pupil =
  pu_id :: string
  pu_name :: string
  pu_teacher_id :: string
  pu_created_at :: string

record report =
  re_id :: string
  re_pupil_id :: string
  re_teacher_id :: string
  re_report_title :: string
  re_requested_at :: string

record exam =
  ex_id :: string
  ex_title :: string
  ex_content :: string
  ex_teacher_id :: string
  ex_updated_at :: string

record correction =
  co_id :: string
  co_exam_id :: string
  co_content :: string
  co_teacher_id :: string

section \<open>Answers of the remote store client\<close>

text \<open>
  A query of the store client resolves to either a result or an error object carrying a
  \<open>code\<close>. The code \<open>PGRST116\<close> is the one the client reports when a single-row query
  matched no row. An awaited query may also reject; then the \<open>await\<close> throws.
\<close>

record pg_error =
  err_code :: string
  err_message :: string

datatype 'a response = Success 'a | Failure pg_error

datatype js_error =
    Postgrest pg_error
  | TypeError string
  | Error string
  | Rejected string

type_synonym 'a awaited = "js_error + 'a response"

text \<open>
  The AI workflow webhook: the JSON body the chat posts, and what \<open>fetch\<close> followed by
  \<open>response.json()\<close> can give: a rejected request, or a response with its \<open>ok\<close> flag
  whose body either fails to parse or parses to \<open>{output, examId?, correctionId?}\<close>.
\<close>

record chat_request =
  rq_examId :: "string option"
  rq_teacherId :: string
  rq_message :: string
  rq_mode :: string
  rq_correctionId :: "string option"

record chat_data =
  cd_output :: string
  cd_examId :: "string option"
  cd_correctionId :: "string option"

datatype fetch_outcome =
    FetchRejected
  | Responded bool "chat_data option"

text \<open>
  The remote store as one handler invocation sees it: for every query the sources issue,
  the answer the store gives. The write queries take the owner identifier that the access
  layer reads from the authenticated session.
\<close>

record remote =
  auth_user_id :: "string option"
  pupils_insert :: "string \<Rightarrow> string option \<Rightarrow> pupil awaited"
  pupils_select :: "pupil list awaited"
  reports_insert :: "string \<Rightarrow> string \<Rightarrow> string option \<Rightarrow> report awaited"
  reports_select_by_pupil :: "string \<Rightarrow> report list awaited"
  exams_insert :: "string \<Rightarrow> string \<Rightarrow> string option \<Rightarrow> exam awaited"
  exams_select :: "exam list awaited"
  exams_update_content :: "string \<Rightarrow> string \<Rightarrow> exam awaited"
  exams_select_by_id :: "string \<Rightarrow> exam awaited"
  exams_update_title :: "string \<Rightarrow> string \<Rightarrow> unit awaited"
  corrections_insert :: "string \<Rightarrow> string \<Rightarrow> string option \<Rightarrow> correction awaited"
  corrections_select_by_exam :: "string \<Rightarrow> correction awaited"
  corrections_update_content :: "string \<Rightarrow> string \<Rightarrow> correction awaited"
  webhook_post :: "chat_request \<Rightarrow> fetch_outcome"

section \<open>The domain access layer\<close>

text \<open>
  Every operation but one ends in \<open>if (error) throw error; return data\<close>. A thrown
  error is the left summand of the result.
\<close>

definition throw_if_error :: "'a awaited \<Rightarrow> js_error + 'a" where
  "throw_if_error r =
     (case r of
        Inl thrown \<Rightarrow> Inl thrown
      | Inr (Failure error) \<Rightarrow> Inl (Postgrest error)
      | Inr (Success data) \<Rightarrow> Inr data)"

definition database_pupils_create :: "remote \<Rightarrow> string \<Rightarrow> js_error + pupil" where
  "database_pupils_create rem name = throw_if_error (pupils_insert rem name (auth_user_id rem))"

definition database_pupils_list :: "remote \<Rightarrow> js_error + pupil list" where
  "database_pupils_list rem = throw_if_error (pupils_select rem)"

definition database_reports_create :: "remote \<Rightarrow> string \<Rightarrow> string \<Rightarrow> js_error + report" where
  "database_reports_create rem pupil_id title =
     throw_if_error (reports_insert rem pupil_id title (auth_user_id rem))"

definition database_reports_listByPupil :: "remote \<Rightarrow> string \<Rightarrow> js_error + report list" where
  "database_reports_listByPupil rem pupilId = throw_if_error (reports_select_by_pupil rem pupilId)"

definition database_exams_create :: "remote \<Rightarrow> string \<Rightarrow> string \<Rightarrow> js_error + exam" where
  "database_exams_create rem title content =
     throw_if_error (exams_insert rem title content (auth_user_id rem))"

definition database_exams_list :: "remote \<Rightarrow> js_error + exam list" where
  "database_exams_list rem = throw_if_error (exams_select rem)"

definition database_exams_update :: "remote \<Rightarrow> string \<Rightarrow> string \<Rightarrow> js_error + exam" where
  "database_exams_update rem id' content = throw_if_error (exams_update_content rem id' content)"

definition database_exams_get :: "remote \<Rightarrow> string \<Rightarrow> js_error + exam" where
  "database_exams_get rem id' = throw_if_error (exams_select_by_id rem id')"

definition database_corrections_create :: "remote \<Rightarrow> string \<Rightarrow> string \<Rightarrow> js_error + correction" where
  "database_corrections_create rem content exam_id =
     throw_if_error (corrections_insert rem content exam_id (auth_user_id rem))"

text \<open>
  \<open>getByExamId\<close> alone ends in
  \<open>if (error && error.code !== 'PGRST116') throw error; return correction || null\<close>.
\<close>

definition database_corrections_getByExamId :: "remote \<Rightarrow> string \<Rightarrow> js_error + correction option" where
  "database_corrections_getByExamId rem examId =
     (case corrections_select_by_exam rem examId of
        Inl thrown \<Rightarrow> Inl thrown
      | Inr (Failure error) \<Rightarrow>
          (if err_code error \<noteq> ''PGRST116'' then Inl (Postgrest error) else Inr None)
      | Inr (Success correction) \<Rightarrow> Inr (Some correction))"

definition database_corrections_update :: "remote \<Rightarrow> string \<Rightarrow> string \<Rightarrow> js_error + correction" where
  "database_corrections_update rem id' content =
     throw_if_error (corrections_update_content rem id' content)"

text \<open>The answer of the store when a query found no matching row.\<close>

definition not_found :: "pg_error \<Rightarrow> 'a awaited" where
  "not_found e = Inr (Failure (e\<lparr>err_code := ''PGRST116''\<rparr>))"

section \<open>The exam-authoring screen\<close>

datatype Mode = Edit | Correction

record chat_message =
  msg_content :: string
  msg_isUser :: bool
  msg_id :: "string option"

datatype toast = ToastSuccess string | ToastError string

text \<open>The queries a handler sends to the remote side, in the order it sends them.\<close>

datatype request =
    ExamsGet string
  | ExamsUpdate string string
  | ExamsUpdateTitle string string
  | ExamsSelectSingle string
  | CorrectionsGetByExamId string
  | CorrectionsUpdate string string
  | CorrectionsCreate string string
  | WebhookPost chat_request

text \<open>
  The component's state variables and refs, under the names the source gives them.
  \<open>toasts\<close> and \<open>requests\<close> are not variables of the component: they record the
  notifications shown and the queries sent, in order.
\<close>

record forge =
  exams :: "exam list"
  selectedExam :: "exam option"
  examContent :: string
  correctionContent :: string
  editableContent :: string
  correction :: "correction option"
  mode :: Mode
  isLoadingContent :: bool
  isCreatingNew :: bool
  isWaitingForCorrection :: bool
  chatMessages :: "chat_message list"
  isSendingMessage :: bool
  message :: string
  newExamId :: "string option"
  examContentCache :: "string \<rightharpoonup> string"
  examListCache :: "exam list"
  toasts :: "toast list"
  requests :: "request list"

definition toast_success :: "string \<Rightarrow> forge \<Rightarrow> forge" where
  "toast_success text st = st\<lparr>toasts := toasts st @ [ToastSuccess text]\<rparr>"

definition toast_error :: "string \<Rightarrow> forge \<Rightarrow> forge" where
  "toast_error text st = st\<lparr>toasts := toasts st @ [ToastError text]\<rparr>"

definition send :: "request \<Rightarrow> forge \<Rightarrow> forge" where
  "send q st = st\<lparr>requests := requests st @ [q]\<rparr>"

text \<open>
  A handler is a closure over the variables of the render that created it: what it reads
  is the state \<open>c\<close> at its invocation, what it sets goes into the running state \<open>st\<close>.
  The helpers the handlers call take both.
\<close>

definition updateExamInList :: "forge \<Rightarrow> exam \<Rightarrow> forge \<Rightarrow> forge" where
  "updateExamInList c updatedExam st =
     (let updatedExams =
            map (\<lambda>exam. if ex_id exam = ex_id updatedExam then updatedExam else exam) (exams c)
      in st\<lparr>exams := updatedExams, examListCache := updatedExams\<rparr>)"

definition addExamToList :: "forge \<Rightarrow> exam \<Rightarrow> forge \<Rightarrow> forge" where
  "addExamToList c newExam st =
     (let updatedExams = newExam # exams c
      in st\<lparr>exams := updatedExams, examListCache := updatedExams\<rparr>)"

definition loadCorrection :: "remote \<Rightarrow> forge \<Rightarrow> Mode \<Rightarrow> forge \<Rightarrow> forge" where
  "loadCorrection rem c currentMode st =
     (case selectedExam c of
        None \<Rightarrow> st
      | Some sel \<Rightarrow>
          (let st1 = send (CorrectionsGetByExamId (ex_id sel)) (st\<lparr>isLoadingContent := True\<rparr>);
               st2 =
                 (case database_corrections_getByExamId rem (ex_id sel) of
                    Inl error \<Rightarrow> toast_error ''Failed to load correction'' st1
                  | Inr None \<Rightarrow>
                      (let st3 = st1\<lparr>correction := None, correctionContent := []\<rparr>
                       in if currentMode = Correction then st3\<lparr>editableContent := []\<rparr> else st3)
                  | Inr (Some corr) \<Rightarrow>
                      (let st3 = st1\<lparr>correction := Some corr, correctionContent := co_content corr\<rparr>
                       in if currentMode = Correction
                          then st3\<lparr>editableContent := co_content corr\<rparr> else st3))
           in st2\<lparr>isLoadingContent := False\<rparr>))"

definition handleToggleMode :: "remote \<Rightarrow> Mode \<Rightarrow> forge \<Rightarrow> forge" where
  "handleToggleMode rem newMode c =
     (let st1 =
        (if mode c = Correction \<and> newMode = Edit then
           c\<lparr>correctionContent := editableContent c, editableContent := examContent c\<rparr>
         else if mode c = Edit \<and> newMode = Correction then
           (let st2 = c\<lparr>examContent := editableContent c\<rparr>
            in if correction c = None \<and> selectedExam c \<noteq> None
               then loadCorrection rem c newMode st2
               else st2\<lparr>editableContent := correctionContent c\<rparr>)
         else c)
      in st1\<lparr>mode := newMode\<rparr>)"




text \<open>
  Selecting an exam. \<open>exams.get\<close> returns a row or throws, so the handler's test
  \<open>!fetchedExam\<close> has no case of its own. The early \<open>return\<close> for a missing id sits
  inside the \<open>try\<close>, so the \<open>finally\<close> runs there too.
\<close>

definition handleExamSelect :: "remote \<Rightarrow> string option \<Rightarrow> forge \<Rightarrow> forge" where
  "handleExamSelect rem examId c =
     (if examId = None \<or> examId = Some [] then
        c\<lparr>selectedExam := None, examContent := [], correctionContent := [],
          correction := None, editableContent := [], chatMessages := [],
          isCreatingNew := True, mode := Edit, isLoadingContent := False\<rparr>
      else
        (let st1 = (if newExamId c = examId then c\<lparr>newExamId := None\<rparr> else c);
             st2 = send (ExamsGet (the examId)) (st1\<lparr>isLoadingContent := True\<rparr>);
             st3 =
               (case database_exams_get rem (the examId) of
                  Inl error \<Rightarrow> toast_error ''Failed to load exam. Please try again.'' st2
                | Inr fetchedExam \<Rightarrow>
                    st2\<lparr>selectedExam := Some fetchedExam,
                        examContent := ex_content fetchedExam,
                        editableContent := ex_content fetchedExam,
                        correctionContent := [],
                        correction := None,
                        chatMessages := [],
                        mode := Edit,
                        isCreatingNew := False,
                        examContentCache :=
                          (examContentCache st2)(the examId \<mapsto> ex_content fetchedExam)\<rparr>)
         in st3\<lparr>isLoadingContent := False\<rparr>))"

subsection \<open>The chat\<close>

text \<open>
  \<open>String.prototype.trim\<close> strips white space and line terminators from both ends. A
  \<open>char\<close> stands for a code unit below 256. Of these, the white space is the
  tabulation \<open>0x09\<close>, the line tabulation \<open>0x0B\<close>, the form feed \<open>0x0C\<close>, the space
  \<open>0x20\<close> and the no-break space \<open>0xA0\<close>, and the line terminators are \<open>0x0A\<close> and
  \<open>0x0D\<close>. The next-line character \<open>0x85\<close> is neither.
\<close>

definition js_whitespace :: "char \<Rightarrow> bool" where
  "js_whitespace ch =
     (ch \<in> set [CHR 0x09, CHR 0x0A, CHR 0x0B, CHR 0x0C, CHR 0x0D, CHR 0x20, CHR 0xA0])"

definition trim :: "string \<Rightarrow> string" where
  "trim s = rev (dropWhile js_whitespace (rev (dropWhile js_whitespace s)))"

text \<open>\<open>x || null\<close> on an optional string: the empty string is falsy too.\<close>

definition or_null :: "string option \<Rightarrow> string option" where
  "or_null x = (case x of None \<Rightarrow> None | Some s \<Rightarrow> if s = [] then None else Some s)"

definition mode_name :: "Mode \<Rightarrow> string" where
  "mode_name m = (case m of Edit \<Rightarrow> ''edit'' | Correction \<Rightarrow> ''correction'')"

definition is_typing :: "chat_message \<Rightarrow> bool" where
  "is_typing msg = (msg_id msg = Some ''typing'')"

definition send_failed :: "forge \<Rightarrow> forge" where
  "send_failed st =
     (let st1 = toast_error ''Failed to get AI response. Please try again.'' st
      in st1\<lparr>chatMessages := filter (\<lambda>msg. \<not> is_typing msg) (chatMessages st1)\<rparr>)"

text \<open>
  \<open>user\<close> is the signed-in user's id, if there is one. \<open>chat_body\<close> is the object the
  handler posts. The two \<open>if\<close> blocks after the reply follow each other; an error thrown
  in the first one skips the second.
\<close>

definition chat_body :: "string option \<Rightarrow> forge \<Rightarrow> chat_request" where
  "chat_body user c =
     \<lparr>rq_examId = or_null (map_option ex_id (selectedExam c)),
      rq_teacherId = the user,
      rq_message = trim (message c),
      rq_mode = (if isCreatingNew c then ''create'' else mode_name (mode c)),
      rq_correctionId = or_null (map_option co_id (correction c))\<rparr>"

text \<open>
  A webhook call that fails: the request is rejected, the status is not a success, or the
  body does not parse.
\<close>

definition webhook_failed :: "fetch_outcome \<Rightarrow> bool" where
  "webhook_failed out =
     (case out of FetchRejected \<Rightarrow> True | Responded ok parsed \<Rightarrow> \<not> ok \<or> parsed = None)"

definition handleSendMessage :: "remote \<Rightarrow> string option \<Rightarrow> forge \<Rightarrow> forge" where
  "handleSendMessage rem user c =
     (if trim (message c) = [] \<or> (selectedExam c = None \<and> \<not> isCreatingNew c) \<or> user = None
      then c
      else
        (let newMessage = \<lparr>msg_content = message c, msg_isUser = True, msg_id = None\<rparr>;
             st1 = c\<lparr>chatMessages := chatMessages c @ [newMessage],
                     message := [], isSendingMessage := True\<rparr>;
             st2 = st1\<lparr>chatMessages := chatMessages st1 @
                     [\<lparr>msg_content = ''...'', msg_isUser = False, msg_id = Some ''typing''\<rparr>]\<rparr>;
             body = chat_body user c;
             st3 = send (WebhookPost body) st2;
             st4 =
               (case webhook_post rem body of
                  FetchRejected \<Rightarrow> send_failed st3
                | Responded ok parsed \<Rightarrow>
                    if \<not> ok then send_failed st3
                    else
                      (case parsed of
                         None \<Rightarrow> send_failed st3
                       | Some data \<Rightarrow>
                           (let st5 = st3\<lparr>chatMessages :=
                                        filter (\<lambda>msg. \<not> is_typing msg) (chatMessages st3)\<rparr>;
                                st6 = st5\<lparr>chatMessages := chatMessages st5 @
                                        [\<lparr>msg_content = cd_output data, msg_isUser = False,
                                          msg_id = None\<rparr>]\<rparr>;
                                created =
                                  (if isCreatingNew c \<and> or_null (cd_examId data) \<noteq> None then
                                     (case database_exams_get rem (the (cd_examId data)) of
                                        Inl error \<Rightarrow>
                                          Inl (send (ExamsGet (the (cd_examId data))) st6)
                                      | Inr exam \<Rightarrow>
                                          Inr (toast_success ''New exam created!''
                                            ((addExamToList c exam
                                               ((send (ExamsGet (the (cd_examId data))) st6)
                                                 \<lparr>selectedExam := Some exam,
                                                  examContent := ex_content exam,
                                                  editableContent := ex_content exam,
                                                  examContentCache :=
                                                    (examContentCache st6)
                                                      (ex_id exam \<mapsto> ex_content exam)\<rparr>))
                                              \<lparr>isCreatingNew := False\<rparr>)))
                                   else Inr st6)
                            in case created of
                                 Inl st7 \<Rightarrow> send_failed st7
                               | Inr st7 \<Rightarrow>
                                   if mode c = Correction \<and> or_null (cd_correctionId data) \<noteq> None
                                   then loadCorrection rem c (mode c) st7
                                   else st7)))
         in st4\<lparr>isSendingMessage := False\<rparr>))"

subsection \<open>Deleting and renaming an exam\<close>

text \<open>
  The \<open>exams\<close> object of the domain access layer has the members \<open>create\<close>, \<open>list\<close>,
  \<open>update\<close> and \<open>get\<close>. The expression \<open>database.exams.delete(examId)\<close> calls a member
  that is not there, which throws a \<open>TypeError\<close> before any query is sent.
\<close>

definition database_exams_delete :: "remote \<Rightarrow> string \<Rightarrow> js_error + unit" where
  "database_exams_delete rem examId = Inl (TypeError ''database.exams.delete is not a function'')"

text \<open>\<open>confirmed\<close> is the answer of the \<open>window.confirm\<close> dialog.\<close>

definition handleExamDelete :: "remote \<Rightarrow> bool \<Rightarrow> string \<Rightarrow> forge \<Rightarrow> forge" where
  "handleExamDelete rem confirmed examId c =
     (if \<not> confirmed then c
      else
        (case database_exams_delete rem examId of
           Inl error \<Rightarrow> toast_error ''Failed to delete exam. Please try again.'' c
         | Inr done \<Rightarrow>
             (let st1 = c\<lparr>examContentCache := (examContentCache c)(examId := None)\<rparr>;
                  updatedExams = filter (\<lambda>exam. ex_id exam \<noteq> examId) (exams c);
                  st2 = st1\<lparr>exams := updatedExams, examListCache := updatedExams\<rparr>;
                  st3 =
                    (if map_option ex_id (selectedExam c) = Some examId then
                       st2\<lparr>selectedExam := None, examContent := [], correctionContent := [],
                           correction := None, editableContent := [], chatMessages := [],
                           mode := Edit\<rparr>
                     else st2)
              in toast_success ''Exam deleted successfully'' st3)))"

text \<open>
  The title update awaits the store client directly and does not bind what it resolves
  to; only a rejected \<open>await\<close> reaches the \<open>catch\<close>.
\<close>

definition handleTitleChange :: "remote \<Rightarrow> string \<Rightarrow> forge \<Rightarrow> forge" where
  "handleTitleChange rem newTitle c =
     (case selectedExam c of
        None \<Rightarrow> c
      | Some sel \<Rightarrow>
          (let st1 = send (ExamsUpdateTitle newTitle (ex_id sel)) c
           in case exams_update_title rem newTitle (ex_id sel) of
                Inl thrown \<Rightarrow> toast_error ''Failed to update title'' st1
              | Inr ignored \<Rightarrow>
                  (let updatedExam = sel\<lparr>ex_title := newTitle\<rparr>
                   in toast_success ''Title updated successfully''
                        ((updateExamInList c updatedExam st1)\<lparr>selectedExam := Some updatedExam\<rparr>))))"

subsection \<open>The listener for inserted exams\<close>

text \<open>
  An insertion notification carries the new row in part: its \<open>id\<close> and \<open>teacher_id\<close> are
  what the listener reads. \<open>user_id\<close> is \<open>user?.id\<close> of the render that subscribed. The
  list is set through an updater function, so it is the current list that is extended.
\<close>

record insert_payload =
  new_id :: string
  new_teacher_id :: string

definition exams_insert_listener :: "remote \<Rightarrow> string option \<Rightarrow> insert_payload \<Rightarrow> forge \<Rightarrow> forge" where
  "exams_insert_listener rem user_id payload st =
     (if Some (new_teacher_id payload) = user_id then
        (let st1 = send (ExamsSelectSingle (new_id payload)) st
         in case exams_select_by_id rem (new_id payload) of
              Inr (Success newExam) \<Rightarrow>
                st1\<lparr>examContentCache := (examContentCache st1)(ex_id newExam \<mapsto> ex_content newExam),
                    exams := newExam # exams st1,
                    newExamId := Some (ex_id newExam)\<rparr>
            | _ \<Rightarrow> st1)
      else st)"

section \<open>Change-stream subscriptions\<close>

text \<open>
  The store client keeps the channels that are open. \<open>supabase.channel(name).on(...)
  .subscribe()\<close> makes a new channel object and registers it; \<open>removeChannel\<close> takes one
  channel object out. A channel object is identified by \<open>ch_ref\<close>.
\<close>

record channel =
  ch_ref :: nat
  ch_name :: string
  ch_table :: string
  ch_filter :: string

record realtime =
  channels :: "channel list"
  fresh :: nat

definition subscribe :: "string \<Rightarrow> string \<Rightarrow> string \<Rightarrow> realtime \<Rightarrow> nat \<times> realtime" where
  "subscribe name table flt rt =
     (fresh rt,
      rt\<lparr>channels := channels rt @
             [\<lparr>ch_ref = fresh rt, ch_name = name, ch_table = table, ch_filter = flt\<rparr>],
         fresh := Suc (fresh rt)\<rparr>)"

definition removeChannel :: "nat \<Rightarrow> realtime \<Rightarrow> realtime" where
  "removeChannel ref rt = rt\<lparr>channels := filter (\<lambda>ch. ch_ref ch \<noteq> ref) (channels rt)\<rparr>"

text \<open>
  The body of a subscription effect: nothing when \<open>user?.id\<close> is missing or empty,
  otherwise one channel on the table, filtered to the user's rows. What it returns besides
  the client is its cleanup: the channel that \<open>removeChannel\<close> will be called with, if any.
\<close>

definition subscription_effect ::
    "string \<Rightarrow> string option \<Rightarrow> realtime \<Rightarrow> realtime \<times> nat option" where
  "subscription_effect table user_id rt =
     (if or_null user_id = None then (rt, None)
      else
        (let (ch, rt') = subscribe table table (''teacher_id=eq.'' @ the user_id) rt
         in (rt', Some ch)))"

definition exams_effect :: "string option \<Rightarrow> realtime \<Rightarrow> realtime \<times> nat option" where
  "exams_effect = subscription_effect ''exams''"

definition reports_effect :: "string option \<Rightarrow> realtime \<Rightarrow> realtime \<times> nat option" where
  "reports_effect = subscription_effect ''reports''"

text \<open>
  How the UI framework drives an effect: it runs the effect when the screen mounts; when
  a dependency has changed it first runs the cleanup the last run returned, then the
  effect again; when the screen unmounts it runs the last cleanup.
\<close>

record mounted =
  client :: realtime
  cleanup :: "nat option"

definition run_cleanup :: "mounted \<Rightarrow> realtime" where
  "run_cleanup m = (case cleanup m of None \<Rightarrow> client m | Some ch \<Rightarrow> removeChannel ch (client m))"

definition mount ::
    "(string option \<Rightarrow> realtime \<Rightarrow> realtime \<times> nat option) \<Rightarrow> string option \<Rightarrow> realtime \<Rightarrow> mounted" where
  "mount effect user_id rt = (let (rt', cl) = effect user_id rt in \<lparr>client = rt', cleanup = cl\<rparr>)"

definition rerun ::
    "(string option \<Rightarrow> realtime \<Rightarrow> realtime \<times> nat option) \<Rightarrow> string option \<Rightarrow> mounted \<Rightarrow> mounted" where
  "rerun effect user_id m = mount effect user_id (run_cleanup m)"

fun reruns ::
    "(string option \<Rightarrow> realtime \<Rightarrow> realtime \<times> nat option) \<Rightarrow> string option list \<Rightarrow> mounted \<Rightarrow> mounted" where
  "reruns effect [] m = m"
| "reruns effect (user_id # rest) m = reruns effect rest (rerun effect user_id m)"

definition unmount :: "mounted \<Rightarrow> realtime" where
  "unmount m = run_cleanup m"

definition on_table :: "string \<Rightarrow> realtime \<Rightarrow> channel list" where
  "on_table table rt = filter (\<lambda>ch. ch_table ch = table) (channels rt)"

definition refs_below_fresh :: "realtime \<Rightarrow> bool" where
  "refs_below_fresh rt = list_all (\<lambda>ch. ch_ref ch < fresh rt) (channels rt)"

text \<open>
  What holds of a mounted effect on \<open>table\<close> whose last run saw \<open>user_id\<close>: without a
  user id there is no channel on the table and no cleanup; with one there is exactly one
  channel on the table, filtered to that user, and it is the one the cleanup removes.
\<close>

definition subscribed :: "string \<Rightarrow> string option \<Rightarrow> mounted \<Rightarrow> bool" where
  "subscribed table user_id m =
     (refs_below_fresh (client m) \<and>
      (case or_null user_id of
         None \<Rightarrow> cleanup m = None \<and> on_table table (client m) = []
       | Some u \<Rightarrow>
           (case cleanup m of
              None \<Rightarrow> False
            | Some r \<Rightarrow>
                on_table table (client m) =
                  [\<lparr>ch_ref = r, ch_name = table, ch_table = table,
                    ch_filter = ''teacher_id=eq.'' @ u\<rparr>])))"

section \<open>Concrete stores and states\<close>

text \<open>
  One teacher \<open>t1\<close>, one exam \<open>e1\<close>, one correction \<open>c1\<close> of it, and four stores.
  \<open>store_none\<close> holds no row: a single-row query is answered with the no-row error, a
  list query with the empty list; its webhook is unreachable. \<open>store_e1\<close> holds the exam
  and no correction, refuses title updates with an error object and answers the webhook
  with a non-success status. \<open>store_e1c1\<close> holds the correction too, and answers the
  creation of a correction with a second row \<open>c2\<close>. \<open>store_e1c1_lookup_fails\<close> is
  \<open>store_e1c1\<close> at a moment when the lookup of the correction fails with an error
  other than the no-row error.
\<close>

definition no_row :: pg_error where
  "no_row = \<lparr>err_code = ''PGRST116'', err_message = ''no rows returned''\<rparr>"

definition denied :: pg_error where
  "denied = \<lparr>err_code = ''42501'', err_message = ''permission denied''\<rparr>"


definition exam1 :: exam where
  "exam1 = \<lparr>ex_id = ''e1'', ex_title = ''Algebra'', ex_content = ''Q1'',
             ex_teacher_id = ''t1'', ex_updated_at = ''2024-01-01''\<rparr>"

definition corr1 :: correction where
  "corr1 = \<lparr>co_id = ''c1'', co_exam_id = ''e1'', co_content = ''A1'', co_teacher_id = ''t1''\<rparr>"

definition store_none :: remote where
  "store_none =
     \<lparr>auth_user_id = Some ''t1'',
      pupils_insert = (\<lambda>name owner. not_found no_row),
      pupils_select = Inr (Success []),
      reports_insert = (\<lambda>pupil title owner. not_found no_row),
      reports_select_by_pupil = (\<lambda>pupil. Inr (Success [])),
      exams_insert = (\<lambda>title content owner. not_found no_row),
      exams_select = Inr (Success []),
      exams_update_content = (\<lambda>i content. not_found no_row),
      exams_select_by_id = (\<lambda>i. not_found no_row),
      exams_update_title = (\<lambda>title i. Inl (Rejected ''Failed to fetch'')),
      corrections_insert = (\<lambda>content exam owner. not_found no_row),
      corrections_select_by_exam = (\<lambda>exam. not_found no_row),
      corrections_update_content = (\<lambda>i content. not_found no_row),
      webhook_post = (\<lambda>body. FetchRejected)\<rparr>"

definition store_e1 :: remote where
  "store_e1 =
     store_none
       \<lparr>exams_select := Inr (Success [exam1]),
        exams_update_content :=
          (\<lambda>i content. if i = ''e1'' then Inr (Success (exam1\<lparr>ex_content := content\<rparr>))
                        else not_found no_row),
        exams_select_by_id := (\<lambda>i. if i = ''e1'' then Inr (Success exam1) else not_found no_row),
        exams_update_title := (\<lambda>title i. Inr (Failure denied)),
        corrections_insert :=
          (\<lambda>content exam owner.
             Inr (Success \<lparr>co_id = ''c1'', co_exam_id = exam, co_content = content,
                           co_teacher_id = ''t1''\<rparr>)),
        webhook_post := (\<lambda>body. Responded False None)\<rparr>"

definition store_e1c1 :: remote where
  "store_e1c1 =
     store_e1
       \<lparr>corrections_select_by_exam :=
          (\<lambda>exam. if exam = ''e1'' then Inr (Success corr1) else not_found no_row),
        corrections_update_content :=
          (\<lambda>i content. if i = ''c1'' then Inr (Success (corr1\<lparr>co_content := content\<rparr>))
                        else not_found no_row),
        corrections_insert :=
          (\<lambda>content exam owner.
             Inr (Success \<lparr>co_id = ''c2'', co_exam_id = exam, co_content = content,
                           co_teacher_id = ''t1''\<rparr>))\<rparr>"


text \<open>The screen as it mounts, and with the exam selected and shown in the editor.\<close>

definition forge0 :: forge where
  "forge0 =
     \<lparr>exams = [], selectedExam = None, examContent = [], correctionContent = [],
      editableContent = [], correction = None, mode = Edit, isLoadingContent = False,
      isCreatingNew = False, isWaitingForCorrection = False, chatMessages = [],
      isSendingMessage = False, message = [], newExamId = None,
      examContentCache = Map.empty, examListCache = [], toasts = [], requests = []\<rparr>"

definition forge1 :: forge where
  "forge1 =
     forge0\<lparr>exams := [exam1], examListCache := [exam1], selectedExam := Some exam1,
            examContent := ''Q1'', editableContent := ''Q1'',
            examContentCache := [''e1'' \<mapsto> ''Q1'']\<rparr>"

text \<open>The store client before any screen has subscribed.\<close>

definition no_channels :: realtime where
  "no_channels = \<lparr>channels = [], fresh = 0\<rparr>"

definition insert1 :: insert_payload where
  "insert1 = \<lparr>new_id = ''e1'', new_teacher_id = ''t1''\<rparr>"

text \<open>How often a row id occurs in a list of exams.\<close>

definition occurrences :: "string \<Rightarrow> exam list \<Rightarrow> nat" where
  "occurrences i xs = length (filter (\<lambda>exam. ex_id exam = i) xs)"

section \<open>The domain access layer: rows that are not found\<close>

text \<open>
  Claim C2, as stated, at a list lookup: the reports of a pupil who has none. The store
  answers the query with the empty list and no error, and the access layer returns the
  empty list; the lookup does not fail.
\<close>

theorem empty_list_lookup_does_not_fail:
  "reports_select_by_pupil store_none ''p1'' = Inr (Success []) \<and>
   database_reports_listByPupil store_none ''p1'' = Inr []"
  by (simp add: database_reports_listByPupil_def throw_if_error_def store_none_def)

text \<open>
  Claim C2, amended. When the store answers a single-row query with its "no matching row"
  error, the correction lookup by exam returns null and throws nothing, while every other
  operation of the domain access layer that reads a single row (\<open>exams.get\<close>, and the
  updates and creations, which read one row back) throws that error. A list lookup
  (\<open>exams.list\<close>, \<open>pupils.list\<close>, \<open>reports.listByPupil\<close>) that matches no row is
  answered with the empty list and returns it without an error.
\<close>

theorem not_found_null_error_or_empty_list:
  "(corrections_select_by_exam rem x = not_found e \<longrightarrow>
      database_corrections_getByExamId rem x = Inr None) \<and>
   (exams_select_by_id rem x = not_found e \<longrightarrow>
      database_exams_get rem x = Inl (Postgrest (e\<lparr>err_code := ''PGRST116''\<rparr>))) \<and>
   (exams_update_content rem x y = not_found e \<longrightarrow>
      database_exams_update rem x y = Inl (Postgrest (e\<lparr>err_code := ''PGRST116''\<rparr>))) \<and>
   (corrections_update_content rem x y = not_found e \<longrightarrow>
      database_corrections_update rem x y = Inl (Postgrest (e\<lparr>err_code := ''PGRST116''\<rparr>))) \<and>
   (exams_insert rem x y (auth_user_id rem) = not_found e \<longrightarrow>
      database_exams_create rem x y = Inl (Postgrest (e\<lparr>err_code := ''PGRST116''\<rparr>))) \<and>
   (corrections_insert rem x y (auth_user_id rem) = not_found e \<longrightarrow>
      database_corrections_create rem x y = Inl (Postgrest (e\<lparr>err_code := ''PGRST116''\<rparr>))) \<and>
   (pupils_insert rem x (auth_user_id rem) = not_found e \<longrightarrow>
      database_pupils_create rem x = Inl (Postgrest (e\<lparr>err_code := ''PGRST116''\<rparr>))) \<and>
   (reports_insert rem x y (auth_user_id rem) = not_found e \<longrightarrow>
      database_reports_create rem x y = Inl (Postgrest (e\<lparr>err_code := ''PGRST116''\<rparr>))) \<and>
   (exams_select rem = Inr (Success []) \<longrightarrow> database_exams_list rem = Inr []) \<and>
   (pupils_select rem = Inr (Success []) \<longrightarrow> database_pupils_list rem = Inr []) \<and>
   (reports_select_by_pupil rem x = Inr (Success []) \<longrightarrow>
      database_reports_listByPupil rem x = Inr [])"
  by (simp add: not_found_def database_corrections_getByExamId_def database_exams_get_def
      database_exams_list_def database_pupils_list_def database_reports_listByPupil_def
      database_exams_update_def database_corrections_update_def database_exams_create_def
      database_corrections_create_def database_pupils_create_def database_reports_create_def
      throw_if_error_def)

theorem not_found_null_error_or_empty_list_witness:
  "database_corrections_getByExamId store_none ''e1'' = Inr None \<and>
   database_exams_get store_none ''e1'' = Inl (Postgrest no_row) \<and>
   database_exams_update store_none ''e1'' ''Q2'' = Inl (Postgrest no_row) \<and>
   database_corrections_update store_none ''e1'' ''Q2'' = Inl (Postgrest no_row) \<and>
   database_exams_create store_none ''e1'' ''Q2'' = Inl (Postgrest no_row) \<and>
   database_corrections_create store_none ''e1'' ''Q2'' = Inl (Postgrest no_row) \<and>
   database_pupils_create store_none ''e1'' = Inl (Postgrest no_row) \<and>
   database_reports_create store_none ''e1'' ''Q2'' = Inl (Postgrest no_row) \<and>
   database_exams_list store_none = Inr [] \<and>
   database_pupils_list store_none = Inr [] \<and>
   database_reports_listByPupil store_none ''e1'' = Inr []"
  using not_found_null_error_or_empty_list [of store_none "''e1''" no_row "''Q2''"]
  by (simp add: store_none_def no_row_def)

section \<open>The mode-switching editor\<close>

text \<open>The state \<open>forge1\<close> is the one that selecting the exam \<open>e1\<close> leads to.\<close>

lemma select_reaches_forge1:
  "handleExamSelect store_e1 (Some ''e1'') (forge0\<lparr>exams := [exam1], examListCache := [exam1]\<rparr>)
     = forge1\<lparr>requests := [ExamsGet ''e1'']\<rparr>"
  by (simp add: handleExamSelect_def store_e1_def store_none_def forge0_def forge1_def exam1_def
      database_exams_get_def throw_if_error_def send_def)

lemma loadCorrection_keeps:
  "examContent (loadCorrection rem c m st) = examContent st"
  "mode (loadCorrection rem c m st) = mode st"
  by (simp_all add: loadCorrection_def send_def toast_error_def Let_def
      split: option.split sum.split)

text \<open>
  Claim C3. From the edit mode, toggling to the correction mode and back to the edit
  mode, with no save in between, leaves the editable buffer with exactly the content it
  had before the first toggle, whatever the store answers in between.
\<close>

theorem toggle_round_trip:
  "mode c = Edit \<Longrightarrow>
   editableContent (handleToggleMode rem' Edit (handleToggleMode rem Correction c))
     = editableContent c \<and>
   mode (handleToggleMode rem' Edit (handleToggleMode rem Correction c)) = Edit"
proof -
  assume edit: "mode c = Edit"
  let ?mid = "handleToggleMode rem Correction c"
  have m: "mode ?mid = Correction"
    by (simp add: handleToggleMode_def Let_def)
  have e: "examContent ?mid = editableContent c"
    using edit by (simp add: handleToggleMode_def Let_def loadCorrection_keeps)
  show ?thesis
    using m e by (simp add: handleToggleMode_def [of rem' Edit ?mid] Let_def)
qed

theorem toggle_round_trip_witness:
  "mode forge1 = Edit \<and>
   editableContent (handleToggleMode store_e1 Edit (handleToggleMode store_e1c1 Correction forge1))
     = ''Q1'' \<and>
   mode (handleToggleMode store_e1 Edit (handleToggleMode store_e1c1 Correction forge1)) = Edit"
  using toggle_round_trip [of forge1 store_e1 store_e1c1]
  by (simp add: forge1_def forge0_def)

text \<open>
  The transition from the edit mode to the correction mode stores the buffer in the
  exam-content slot; with a correction object in the state it sends no query and shows the
  cached correction content.
\<close>

lemma toggle_persists_buffer:
  "mode c = Edit \<Longrightarrow> examContent (handleToggleMode rem Correction c) = editableContent c"
  by (simp add: handleToggleMode_def Let_def loadCorrection_keeps)

lemma toggle_reuses_loaded_correction:
  "mode c = Edit \<Longrightarrow> correction c = Some corr \<Longrightarrow>
   handleToggleMode rem Correction c
     = c\<lparr>examContent := editableContent c, editableContent := correctionContent c,
         mode := Correction\<rparr>"
  by (simp add: handleToggleMode_def Let_def)

text \<open>
  Claim C5, at an exam that has no correction row. The exam \<open>e1\<close> is selected and shown in
  the edit mode. The user toggles to the correction mode (first lookup: no row), types a
  draft, toggles back to the edit mode (the draft goes into the correction-content slot)
  and toggles to the correction mode again. The second toggle sends the lookup a second
  time and, as it finds no row again, empties the buffer: the draft is not shown.
\<close>

theorem toggle_refetches_missing_correction:
  "requests (handleToggleMode store_e1 Correction
      (handleToggleMode store_e1 Edit
         ((handleToggleMode store_e1 Correction forge1)\<lparr>editableContent := ''draft''\<rparr>)))
     = [CorrectionsGetByExamId ''e1'', CorrectionsGetByExamId ''e1''] \<and>
   correctionContent (handleToggleMode store_e1 Edit
         ((handleToggleMode store_e1 Correction forge1)\<lparr>editableContent := ''draft''\<rparr>))
     = ''draft'' \<and>
   editableContent (handleToggleMode store_e1 Correction
      (handleToggleMode store_e1 Edit
         ((handleToggleMode store_e1 Correction forge1)\<lparr>editableContent := ''draft''\<rparr>)))
     = []"
  by (simp add: handleToggleMode_def loadCorrection_def database_corrections_getByExamId_def
      store_e1_def store_none_def not_found_def no_row_def forge1_def forge0_def exam1_def
      send_def Let_def)

section \<open>Saving\<close>

lemma requests_toast [simp]:
  "requests (toast_success t st) = requests st"
  "requests (toast_error t st) = requests st"
  by (simp_all add: toast_success_def toast_error_def)




section \<open>Inserted exams\<close>

text \<open>
  Claim C1, as stated, at the empty list: two notifications for the row \<open>e1\<close> do not
  leave it in the list exactly once.
\<close>

theorem insert_twice_duplicates_row:
  "\<not> occurrences ''e1''
        (exams (exams_insert_listener store_e1 (Some ''t1'') insert1
                 (exams_insert_listener store_e1 (Some ''t1'') insert1 forge0))) = 1"
  by (simp add: exams_insert_listener_def store_e1_def store_none_def insert1_def forge0_def
      send_def occurrences_def exam1_def)

text \<open>
  Claim C1, amended. For two notifications for the same row id, both for the current
  user and each followed by a fetch that returns the row, the listener puts the fetched
  row in front of the list each time: the row id occurs two more times than before. The
  content cache, keyed by the row id, holds one entry for it, the content fetched last.
\<close>

theorem insert_twice_prepends_twice:
  assumes "Some (new_teacher_id p1) = uid" and "Some (new_teacher_id p2) = uid"
    and "new_id p2 = new_id p1"
    and "exams_select_by_id rem1 (new_id p1) = Inr (Success row1)"
    and "exams_select_by_id rem2 (new_id p2) = Inr (Success row2)"
    and "ex_id row1 = new_id p1" and "ex_id row2 = new_id p1"
  shows "exams (exams_insert_listener rem2 uid p2 (exams_insert_listener rem1 uid p1 st))
           = row2 # row1 # exams st \<and>
         occurrences (new_id p1)
            (exams (exams_insert_listener rem2 uid p2 (exams_insert_listener rem1 uid p1 st)))
           = occurrences (new_id p1) (exams st) + 2 \<and>
         examContentCache
            (exams_insert_listener rem2 uid p2 (exams_insert_listener rem1 uid p1 st))
            (new_id p1) = Some (ex_content row2)"
  using assms
  by (simp add: exams_insert_listener_def send_def occurrences_def)

theorem insert_twice_prepends_twice_witness:
  "exams (exams_insert_listener store_e1 (Some ''t1'') insert1
            (exams_insert_listener store_e1 (Some ''t1'') insert1 forge0)) = [exam1, exam1] \<and>
   occurrences ''e1''
      (exams (exams_insert_listener store_e1 (Some ''t1'') insert1
            (exams_insert_listener store_e1 (Some ''t1'') insert1 forge0))) = 2 \<and>
   examContentCache (exams_insert_listener store_e1 (Some ''t1'') insert1
            (exams_insert_listener store_e1 (Some ''t1'') insert1 forge0)) ''e1'' = Some ''Q1''"
  using insert_twice_prepends_twice
    [of insert1 "Some ''t1''" insert1 store_e1 exam1 store_e1 exam1 forge0]
  by (simp add: insert1_def store_e1_def store_none_def exam1_def forge0_def occurrences_def)

section \<open>Deleting and renaming\<close>

text \<open>
  Claim C6, at the selected exam \<open>e1\<close> with one chat message, the dialog confirmed: the
  handler shows the failure notification and resets nothing; the selection, the exam
  content, the buffer and the chat are as before.
\<close>

theorem delete_selected_keeps_state:
  "handleExamDelete store_e1 True ''e1''
     (forge1\<lparr>chatMessages := [\<lparr>msg_content = ''hello'', msg_isUser = True, msg_id = None\<rparr>]\<rparr>)
   = forge1\<lparr>chatMessages := [\<lparr>msg_content = ''hello'', msg_isUser = True, msg_id = None\<rparr>],
            toasts := [ToastError ''Failed to delete exam. Please try again.'']\<rparr>"
  by (simp add: handleExamDelete_def database_exams_delete_def toast_error_def forge1_def
      forge0_def)

text \<open>
  Claim C9, as stated, with the dialog declined: the handler returns before the \<open>try\<close>
  block, and no failure notification is shown.
\<close>

theorem declined_delete_shows_nothing:
  "\<not> ToastError ''Failed to delete exam. Please try again.''
       \<in> set (toasts (handleExamDelete store_e1 False ''e1'' forge1))"
  by (simp add: handleExamDelete_def forge1_def forge0_def)

text \<open>
  Claim C9, amended. For every exam id and every state: once the user has confirmed the
  dialog, the handler takes its error branch, as the call of the absent \<open>delete\<close> member
  throws, and all it does is show the failure notification; when the user declines, it
  does nothing. Either way no query is sent, and the exam list, its cache, the content
  cache and the selection are left as they were.
\<close>

theorem handleExamDelete_never_deletes:
  "handleExamDelete rem confirmed examId c
     = (if confirmed then toast_error ''Failed to delete exam. Please try again.'' c else c) \<and>
   exams (handleExamDelete rem confirmed examId c) = exams c \<and>
   examListCache (handleExamDelete rem confirmed examId c) = examListCache c \<and>
   examContentCache (handleExamDelete rem confirmed examId c) = examContentCache c \<and>
   selectedExam (handleExamDelete rem confirmed examId c) = selectedExam c \<and>
   requests (handleExamDelete rem confirmed examId c) = requests c"
  by (simp add: handleExamDelete_def database_exams_delete_def toast_error_def)

theorem handleExamDelete_never_deletes_witness:
  "handleExamDelete store_e1 True ''e1'' forge1
     = forge1\<lparr>toasts := [ToastError ''Failed to delete exam. Please try again.'']\<rparr> \<and>
   handleExamDelete store_e1 False ''e1'' forge1 = forge1"
  using handleExamDelete_never_deletes [of store_e1 True "''e1''" forge1]
    handleExamDelete_never_deletes [of store_e1 False "''e1''" forge1]
  by (simp add: toast_error_def forge1_def forge0_def)

text \<open>
  Claim C10. With an exam selected, whenever the awaited title update resolves, be it
  with a result or with an error object, the handler puts the new title into the local
  list and the selection and shows the success notification. Only when the awaited update
  throws does the handler show the failure notification and leave the list and the
  selection as they were.
\<close>

theorem title_change_ignores_error_answer:
  "selectedExam c = Some sel \<Longrightarrow>
   (\<forall>answer. exams_update_title rem newTitle (ex_id sel) = Inr answer \<longrightarrow>
      exams (handleTitleChange rem newTitle c)
        = map (\<lambda>exam. if ex_id exam = ex_id sel then sel\<lparr>ex_title := newTitle\<rparr> else exam)
            (exams c) \<and>
      selectedExam (handleTitleChange rem newTitle c) = Some (sel\<lparr>ex_title := newTitle\<rparr>) \<and>
      toasts (handleTitleChange rem newTitle c)
        = toasts c @ [ToastSuccess ''Title updated successfully'']) \<and>
   (\<forall>thrown. exams_update_title rem newTitle (ex_id sel) = Inl thrown \<longrightarrow>
      exams (handleTitleChange rem newTitle c) = exams c \<and>
      selectedExam (handleTitleChange rem newTitle c) = selectedExam c \<and>
      toasts (handleTitleChange rem newTitle c)
        = toasts c @ [ToastError ''Failed to update title''])"
  by (simp add: handleTitleChange_def updateExamInList_def toast_success_def toast_error_def
      send_def Let_def)

theorem title_change_ignores_error_answer_witness:
  "exams_update_title store_e1 ''Geometry'' ''e1'' = Inr (Failure denied) \<and>
   exams (handleTitleChange store_e1 ''Geometry'' forge1) = [exam1\<lparr>ex_title := ''Geometry''\<rparr>] \<and>
   selectedExam (handleTitleChange store_e1 ''Geometry'' forge1)
     = Some (exam1\<lparr>ex_title := ''Geometry''\<rparr>) \<and>
   toasts (handleTitleChange store_e1 ''Geometry'' forge1)
     = [ToastSuccess ''Title updated successfully''] \<and>
   exams_update_title store_none ''Geometry'' ''e1'' = Inl (Rejected ''Failed to fetch'') \<and>
   exams (handleTitleChange store_none ''Geometry'' forge1) = [exam1] \<and>
   toasts (handleTitleChange store_none ''Geometry'' forge1)
     = [ToastError ''Failed to update title'']"
  using title_change_ignores_error_answer [of forge1 exam1 store_e1 "''Geometry''"]
    title_change_ignores_error_answer [of forge1 exam1 store_none "''Geometry''"]
  by (simp add: forge1_def forge0_def store_e1_def store_none_def exam1_def)

section \<open>The chat and a failing webhook\<close>

lemma loadCorrection_chat:
  "chatMessages (loadCorrection rem c m st) = chatMessages st"
  "isSendingMessage (loadCorrection rem c m st) = isSendingMessage st"
  by (simp_all add: loadCorrection_def send_def toast_error_def Let_def
      split: option.split sum.split)

lemma typing_filtered: "filter is_typing (filter (\<lambda>msg. \<not> is_typing msg) xs) = []"
  by (induction xs) auto

lemma send_failed_chat: "filter is_typing (chatMessages (send_failed st)) = []"
  by (simp add: send_failed_def toast_error_def Let_def typing_filtered)

text \<open>
  Claim C7. When the handler sends a message (the message is not blank, an exam is
  selected or a new one is being created, a user is signed in) and the webhook call fails
  (a rejected request, a non-success status, a body that does not parse), then afterwards
  the chat holds no "typing" message, only the earlier messages and the user's own; the
  failure notification has been shown; and the sending flag is off.
\<close>

theorem webhook_failure_clears_typing:
  assumes "trim (message c) \<noteq> []" and "selectedExam c \<noteq> None \<or> isCreatingNew c"
    and "user \<noteq> None"
    and "webhook_failed (webhook_post rem (chat_body user c))"
  shows "filter is_typing (chatMessages (handleSendMessage rem user c)) = [] \<and>
         chatMessages (handleSendMessage rem user c)
           = filter (\<lambda>msg. \<not> is_typing msg) (chatMessages c) @
               [\<lparr>msg_content = message c, msg_isUser = True, msg_id = None\<rparr>] \<and>
         toasts (handleSendMessage rem user c)
           = toasts c @ [ToastError ''Failed to get AI response. Please try again.''] \<and>
         \<not> isSendingMessage (handleSendMessage rem user c)"
proof -
  have guard:
    "\<not> (trim (message c) = [] \<or> (selectedExam c = None \<and> \<not> isCreatingNew c) \<or> user = None)"
    using assms(1-3) by auto
  show ?thesis
  proof (cases "webhook_post rem (chat_body user c)")
    case FetchRejected
    then show ?thesis
      unfolding handleSendMessage_def if_not_P [OF guard]
      by (simp add: Let_def send_failed_def send_def toast_error_def is_typing_def
          typing_filtered)
  next
    case (Responded ok parsed)
    with assms(4) have "\<not> ok \<or> parsed = None"
      by (simp add: webhook_failed_def)
    with Responded show ?thesis
      unfolding handleSendMessage_def if_not_P [OF guard]
      by (auto simp add: Let_def send_failed_def send_def toast_error_def is_typing_def
          typing_filtered)
  qed
qed

theorem webhook_failure_clears_typing_witness:
  "trim (message (forge1\<lparr>message := '' hi ''\<rparr>)) \<noteq> [] \<and>
   webhook_failed
     (webhook_post store_e1 (chat_body (Some ''t1'') (forge1\<lparr>message := '' hi ''\<rparr>))) \<and>
   chatMessages (handleSendMessage store_e1 (Some ''t1'') (forge1\<lparr>message := '' hi ''\<rparr>))
     = [\<lparr>msg_content = '' hi '', msg_isUser = True, msg_id = None\<rparr>] \<and>
   toasts (handleSendMessage store_e1 (Some ''t1'') (forge1\<lparr>message := '' hi ''\<rparr>))
     = [ToastError ''Failed to get AI response. Please try again.''] \<and>
   \<not> isSendingMessage (handleSendMessage store_e1 (Some ''t1'') (forge1\<lparr>message := '' hi ''\<rparr>))"
proof -
  have t: "trim (message (forge1\<lparr>message := '' hi ''\<rparr>)) \<noteq> []"
    by (simp add: trim_def js_whitespace_def)
  have s: "selectedExam (forge1\<lparr>message := '' hi ''\<rparr>) \<noteq> None \<or>
           isCreatingNew (forge1\<lparr>message := '' hi ''\<rparr>)"
    by (simp add: forge1_def)
  have u: "Some ''t1'' \<noteq> None"
    by simp
  have w: "webhook_failed
      (webhook_post store_e1 (chat_body (Some ''t1'') (forge1\<lparr>message := '' hi ''\<rparr>)))"
    by (simp add: webhook_failed_def store_e1_def)
  show ?thesis
    using t w webhook_failure_clears_typing [OF t s u w] by (simp add: forge1_def forge0_def)
qed

text \<open>
  A message of white space only, no-break spaces included, is not sent: the handler
  returns at its guard and changes nothing.
\<close>

lemma trim_strips_no_break_space: "trim [CHR 0xA0, CHR 0x20, CHR 0x09] = []"
  by (simp add: trim_def js_whitespace_def)

lemma blank_message_is_not_sent:
  "trim (message c) = [] \<Longrightarrow> handleSendMessage rem user c = c"
  by (simp add: handleSendMessage_def)

text \<open>
  Whatever the webhook and the store answer, a sent message leaves no "typing" message in
  the chat and the sending flag off.
\<close>

lemma send_never_stuck:
  assumes "trim (message c) \<noteq> []" and "selectedExam c \<noteq> None \<or> isCreatingNew c"
    and "user \<noteq> None"
  shows "filter is_typing (chatMessages (handleSendMessage rem user c)) = [] \<and>
         \<not> isSendingMessage (handleSendMessage rem user c)"
proof -
  have guard:
    "\<not> (trim (message c) = [] \<or> (selectedExam c = None \<and> \<not> isCreatingNew c) \<or> user = None)"
    using assms(1-3) by auto
  show ?thesis
    unfolding handleSendMessage_def if_not_P [OF guard] Let_def
    by (auto simp add: send_failed_chat loadCorrection_chat send_def toast_success_def
        addExamToList_def is_typing_def typing_filtered Let_def
        split: fetch_outcome.split option.split sum.split)
qed

section \<open>One subscription per table\<close>

lemma removeChannel_on_table:
  "on_table t (removeChannel r rt) = filter (\<lambda>ch. ch_ref ch \<noteq> r) (on_table t rt)"
  by (simp add: on_table_def removeChannel_def conj_commute)

lemma removeChannel_refs:
  "refs_below_fresh rt \<Longrightarrow> refs_below_fresh (removeChannel r rt)"
  by (simp add: refs_below_fresh_def removeChannel_def list_all_iff)

text \<open>The cleanup of a mounted effect leaves no channel on its table.\<close>

lemma subscribed_cleanup:
  assumes "subscribed t uid m"
  shows "refs_below_fresh (run_cleanup m) \<and> on_table t (run_cleanup m) = []"
proof (cases "cleanup m")
  case None
  with assms show ?thesis
    by (auto simp add: subscribed_def run_cleanup_def split: option.splits)
next
  case (Some r)
  with assms show ?thesis
    by (auto simp add: subscribed_def run_cleanup_def removeChannel_on_table removeChannel_refs
        split: option.splits)
qed

text \<open>Running the effect on a client without a channel on the table establishes \<open>subscribed\<close>.\<close>

lemma subscribed_mount:
  assumes "refs_below_fresh rt" and "on_table t rt = []"
  shows "subscribed t uid (mount (subscription_effect t) uid rt)"
proof (cases "or_null uid")
  case None
  with assms show ?thesis
    by (simp add: subscribed_def mount_def subscription_effect_def)
next
  case (Some u)
  then have u: "uid = Some u"
    by (auto simp add: or_null_def split: option.splits if_splits)
  from assms(1) have "list_all (\<lambda>ch. ch_ref ch < Suc (fresh rt)) (channels rt)"
    by (auto simp add: refs_below_fresh_def list_all_iff)
  with assms(2) Some u show ?thesis
    by (simp add: subscribed_def mount_def subscription_effect_def subscribe_def
        on_table_def refs_below_fresh_def)
qed

lemma subscribed_rerun:
  "subscribed t uid m \<Longrightarrow> subscribed t uid' (rerun (subscription_effect t) uid' m)"
  unfolding rerun_def using subscribed_cleanup [of t uid m] by (simp add: subscribed_mount)

lemma subscribed_reruns:
  "subscribed t uid m \<Longrightarrow>
   subscribed t (last (uid # uids)) (reruns (subscription_effect t) uids m)"
proof (induction uids arbitrary: uid m)
  case Nil
  then show ?case by simp
next
  case (Cons u us)
  from Cons.prems have "subscribed t u (rerun (subscription_effect t) u m)"
    by (rule subscribed_rerun)
  from Cons.IH [OF this] show ?case by simp
qed

lemma subscribed_active:
  assumes "subscribed t uid m"
  shows "length (on_table t (client m)) \<le> 1"
    and "map ch_filter (on_table t (client m))
           = (case or_null uid of None \<Rightarrow> [] | Some u \<Rightarrow> [''teacher_id=eq.'' @ u])"
  using assms by (auto simp add: subscribed_def split: option.splits)

lemma subscription_lifecycle:
  assumes "refs_below_fresh rt" and "on_table t rt = []"
  shows "length (on_table t (client (reruns (subscription_effect t) uids
            (mount (subscription_effect t) uid rt)))) \<le> 1 \<and>
         map ch_filter (on_table t (client (reruns (subscription_effect t) uids
            (mount (subscription_effect t) uid rt))))
           = (case or_null (last (uid # uids)) of
                None \<Rightarrow> [] | Some u \<Rightarrow> [''teacher_id=eq.'' @ u]) \<and>
         on_table t (unmount (reruns (subscription_effect t) uids
            (mount (subscription_effect t) uid rt))) = []"
proof -
  let ?m = "reruns (subscription_effect t) uids (mount (subscription_effect t) uid rt)"
  have "subscribed t (last (uid # uids)) ?m"
    using subscribed_reruns [OF subscribed_mount [OF assms]] .
  then show ?thesis
    using subscribed_active [of t "last (uid # uids)" ?m]
      subscribed_cleanup [of t "last (uid # uids)" ?m]
    by (simp add: unmount_def)
qed

text \<open>
  Claim C8. A screen mounts on a store client that has no channel on the screen's table,
  with the user id \<open>uid\<close>, and its subscription effect is then run again any number of
  times, with the user ids \<open>uids\<close>. In the state reached, for the exams effect of the
  exam-authoring screen and for the reports effect of the dashboard alike: at most one
  channel on the table is open; it is the channel filtered to the user id of the last run,
  and none is open if that run had no user id (each run replaces the channel of the run
  before); and after the unmount no channel on the table is open.
\<close>

theorem one_subscription_per_table:
  assumes "refs_below_fresh rt" and "on_table ''exams'' rt = []"
    and "on_table ''reports'' rt = []"
  shows "length (on_table ''exams''
            (client (reruns exams_effect uids (mount exams_effect uid rt)))) \<le> 1 \<and>
         map ch_filter (on_table ''exams''
            (client (reruns exams_effect uids (mount exams_effect uid rt))))
           = (case or_null (last (uid # uids)) of
                None \<Rightarrow> [] | Some u \<Rightarrow> [''teacher_id=eq.'' @ u]) \<and>
         on_table ''exams'' (unmount (reruns exams_effect uids (mount exams_effect uid rt)))
           = [] \<and>
         length (on_table ''reports''
            (client (reruns reports_effect uids (mount reports_effect uid rt)))) \<le> 1 \<and>
         map ch_filter (on_table ''reports''
            (client (reruns reports_effect uids (mount reports_effect uid rt))))
           = (case or_null (last (uid # uids)) of
                None \<Rightarrow> [] | Some u \<Rightarrow> [''teacher_id=eq.'' @ u]) \<and>
         on_table ''reports'' (unmount (reruns reports_effect uids (mount reports_effect uid rt)))
           = []"
  using subscription_lifecycle [OF assms(1,2), of uids uid]
    subscription_lifecycle [OF assms(1,3), of uids uid]
  unfolding exams_effect_def reports_effect_def by simp

theorem one_subscription_per_table_witness:
  "refs_below_fresh no_channels \<and>
   map ch_filter (on_table ''exams'' (client
      (reruns exams_effect [Some ''t1'', None, Some ''t2'']
         (mount exams_effect (Some ''t1'') no_channels))))
     = [''teacher_id=eq.t2''] \<and>
   on_table ''exams'' (unmount
      (reruns exams_effect [Some ''t1'', None, Some ''t2'']
         (mount exams_effect (Some ''t1'') no_channels))) = [] \<and>
   map ch_filter (on_table ''reports'' (client
      (reruns reports_effect [Some ''t1'', None, Some ''t2'']
         (mount reports_effect (Some ''t1'') no_channels))))
     = [''teacher_id=eq.t2''] \<and>
   on_table ''reports'' (unmount
      (reruns reports_effect [Some ''t1'', None, Some ''t2'']
         (mount reports_effect (Some ''t1'') no_channels))) = []"
proof -
  have a: "refs_below_fresh no_channels"
    by (simp add: refs_below_fresh_def no_channels_def)
  have b: "on_table ''exams'' no_channels = []"
    by (simp add: on_table_def no_channels_def)
  have c: "on_table ''reports'' no_channels = []"
    by (simp add: on_table_def no_channels_def)
  show ?thesis
    using a one_subscription_per_table
      [OF a b c, of "[Some ''t1'', None, Some ''t2'']" "Some ''t1''"]
    by (simp add: or_null_def)
qed

end
